theory Spec2Isabelle
  imports Main
begin

section \<open>Time: the date-fns helpers the controllers call\<close>

text \<open>
  A JavaScript \<^verbatim>\<open>Date\<close> is an instant, a whole number of milliseconds since the epoch.
  The controllers use \<^verbatim>\<open>startOfHour\<close>, \<^verbatim>\<open>startOfDay\<close>, \<^verbatim>\<open>endOfDay\<close>, \<^verbatim>\<open>subHours\<close> and
  \<^verbatim>\<open>isBefore\<close> of the date-fns library. The first three work on the local wall clock
  (\<^verbatim>\<open>setMinutes(0, 0, 0)\<close>, \<^verbatim>\<open>setHours(0, 0, 0, 0)\<close>, \<^verbatim>\<open>setHours(23, 59, 59, 999)\<close>);
  the local clock is the instant plus the offset \<open>tz\<close> of the server's time zone, in
  milliseconds, taken as a parameter. \<^verbatim>\<open>parseISO\<close> is applied before the model: a request
  carries the instant its date string denotes.
\<close>

type_synonym Date = int

definition MILLISECONDS_IN_HOUR :: int where
  "MILLISECONDS_IN_HOUR = 3600000"

definition MILLISECONDS_IN_DAY :: int where
  "MILLISECONDS_IN_DAY = 86400000"

definition startOfHour :: "int \<Rightarrow> Date \<Rightarrow> Date" where
  "startOfHour tz d = d - (d + tz) mod MILLISECONDS_IN_HOUR"

definition startOfDay :: "int \<Rightarrow> Date \<Rightarrow> Date" where
  "startOfDay tz d = d - (d + tz) mod MILLISECONDS_IN_DAY"

definition endOfDay :: "int \<Rightarrow> Date \<Rightarrow> Date" where
  "endOfDay tz d = startOfDay tz d + (MILLISECONDS_IN_DAY - 1)"

definition subHours :: "Date \<Rightarrow> int \<Rightarrow> Date" where
  "subHours d n = d - n * MILLISECONDS_IN_HOUR"

definition isBefore :: "Date \<Rightarrow> Date \<Rightarrow> bool" where
  "isBefore d dateToCompare = (d < dateToCompare)"

section \<open>Data: the rows the controllers read and write\<close>

record user =
  user_pk :: int
  name :: string
  provider :: bool

record apointment =
  apointment_pk :: int
  user_id :: int
  provider_id :: int
  date :: Date
  canceled_at :: "Date option"

text \<open>
  The notification document of \<^verbatim>\<open>Notification.create\<close>. Its content is the template
  \<^verbatim>\<open>Novo agendamento de ${user.name} para ${formattedDate}\<close>; the locale formatting is
  left out and the two values the template embeds are kept.
\<close>

record notification =
  content_name :: string
  content_date :: Date
  notified_user :: int

text \<open>
  The stores behind the models: the user table, the appointment table with the next
  value of its serial primary key, the notification collection, and the payloads handed
  to \<^verbatim>\<open>Queue.add\<close> under \<^verbatim>\<open>CancellationMail.key\<close>. Reads and writes of the tables
  always complete; the two calls that leave the database, the notification and the queue,
  may be rejected, and each handler takes their outcome as an argument.
\<close>

record db =
  users :: "user list"
  apointments :: "apointment list"
  next_pk :: int
  notifications :: "notification list"
  cancellation_jobs :: "apointment list"

text \<open>
  The JSON values \<^verbatim>\<open>Yup.number()\<close> accepts: a number, or a string that it casts to that
  number (\<^verbatim>\<open>"1"\<close> for 1). The schema only validates; the handler goes on with the value
  as the body holds it.
\<close>

datatype raw_number = Number int | NumericString int

text \<open>The number a query or an insert makes of the value.\<close>

fun to_number :: "raw_number \<Rightarrow> int" where
  "to_number (Number n) = n"
| "to_number (NumericString n) = n"

text \<open>
  JavaScript's \<^verbatim>\<open>!==\<close> between a body value and a number: a string is never strictly
  equal to a number.
\<close>

fun strict_not_equal :: "raw_number \<Rightarrow> int \<Rightarrow> bool" where
  "strict_not_equal (Number n) m = (n \<noteq> m)"
| "strict_not_equal (NumericString n) m = True"

text \<open>
  A request body as the Yup schema sees it: a field is \<open>None\<close> when it is missing or
  not of the required shape (\<^verbatim>\<open>Yup.number().required()\<close>, \<^verbatim>\<open>Yup.date().required()\<close>).
\<close>

record body =
  body_provider_id :: "raw_number option"
  body_date :: "Date option"

text \<open>
  What a handler answers: the JSON of a row (\<open>Inr\<close>), one of the error responses, or
  an exception that leaves the handler.
  \<^item> \<open>ValidationFails\<close>: 400 \<^verbatim>\<open>Validation fails\<close>
  \<^item> \<open>NotAProvider\<close>: 401 \<^verbatim>\<open>You can only create apointments with providers\<close>
  \<^item> \<open>SelfBookingNotAllowed\<close>: 400 \<^verbatim>\<open>You can't schedule an appointment with yourself.\<close>
  \<^item> \<open>PastDate\<close>: 400 \<^verbatim>\<open>Past dates are not permited\<close>
  \<^item> \<open>SlotUnavailable\<close>: 400 \<^verbatim>\<open>Apointment date is not available.\<close>
  \<^item> \<open>NotOwner\<close>: 401 \<^verbatim>\<open>You don't have permission to cancel this appointment.\<close>
  \<^item> \<open>TooLateToCancel\<close>: 401 \<^verbatim>\<open>You can only cancel appointments 2 hours in advance.\<close>
  \<^item> \<open>UserIsNotProvider\<close>: 400 \<^verbatim>\<open>User is not a provider\<close>
\<close>

datatype exn = TypeError | NotificationRejected | QueueRejected

datatype error =
    ValidationFails
  | NotAProvider
  | SelfBookingNotAllowed
  | PastDate
  | SlotUnavailable
  | NotOwner
  | TooLateToCancel
  | UserIsNotProvider
  | Thrown exn

section \<open>The queries\<close>

text \<open>\<^verbatim>\<open>User.findOne({ where: { id, provider: true } })\<close>\<close>

definition findProvider :: "db \<Rightarrow> int \<Rightarrow> user option" where
  "findProvider st i = find (\<lambda>u. user_pk u = i \<and> provider u) (users st)"

text \<open>\<^verbatim>\<open>User.findByPk(id)\<close>\<close>

definition findUserByPk :: "db \<Rightarrow> int \<Rightarrow> user option" where
  "findUserByPk st i = find (\<lambda>u. user_pk u = i) (users st)"

text \<open>\<^verbatim>\<open>Apointment.findOne({ where: { provider_id, canceled_at: null, date: hourStart } })\<close>\<close>

definition checkAvailability :: "db \<Rightarrow> int \<Rightarrow> Date \<Rightarrow> apointment option" where
  "checkAvailability st pid hourStart =
     find (\<lambda>a. provider_id a = pid \<and> canceled_at a = None \<and> date a = hourStart) (apointments st)"

text \<open>\<^verbatim>\<open>Apointment.findByPk(id)\<close>\<close>

definition findByPk :: "db \<Rightarrow> int \<Rightarrow> apointment option" where
  "findByPk st i = find (\<lambda>a. apointment_pk a = i) (apointments st)"

text \<open>\<^verbatim>\<open>Apointment.create({ user_id, provider_id, date })\<close>: the new row and the table with it.\<close>

definition create :: "db \<Rightarrow> int \<Rightarrow> int \<Rightarrow> Date \<Rightarrow> apointment \<times> db" where
  "create st uid pid d =
     (let a = \<lparr>apointment_pk = next_pk st, user_id = uid, provider_id = pid, date = d,
                canceled_at = None\<rparr>
      in (a, st\<lparr>apointments := apointments st @ [a], next_pk := next_pk st + 1\<rparr>))"

text \<open>
  \<^verbatim>\<open>appointment.canceled_at = new Date(); await appointment.save()\<close>: the update of the
  one changed column, on the rows of that primary key.
\<close>

definition save_canceled_at :: "db \<Rightarrow> int \<Rightarrow> Date \<Rightarrow> db" where
  "save_canceled_at st i t =
     st\<lparr>apointments :=
          map (\<lambda>a. if apointment_pk a = i then a\<lparr>canceled_at := Some t\<rparr> else a) (apointments st)\<rparr>"

section \<open>ApointmentController\<close>

text \<open>
  \<open>store\<close> of the controller with the self-booking check and the notification. \<open>now\<close> is
  the \<^verbatim>\<open>new Date()\<close> of the past-date check; \<open>sent\<close> tells whether
  \<^verbatim>\<open>await Notification.create(...)\<close> resolves (\<open>False\<close>: it rejects, and the rejection
  leaves the handler, nothing catches it). The self-booking test is the handler's
  \<^verbatim>\<open>!(provider_id !== req.userId)\<close> on the body's own value; the queries and the insert
  take the value as the number it denotes.
\<close>

definition store :: "int \<Rightarrow> db \<Rightarrow> int \<Rightarrow> body \<Rightarrow> Date \<Rightarrow> bool \<Rightarrow> (error + apointment) \<times> db" where
  "store tz st userId b now sent =
     (case (body_provider_id b, body_date b) of
        (Some provider_id', Some d) \<Rightarrow>
          if findProvider st (to_number provider_id') = None then (Inl NotAProvider, st)
          else if \<not> (strict_not_equal provider_id' userId) then (Inl SelfBookingNotAllowed, st)
          else
            let hourStart = startOfHour tz d in
            if isBefore hourStart now then (Inl PastDate, st)
            else if checkAvailability st (to_number provider_id') hourStart \<noteq> None
              then (Inl SlotUnavailable, st)
            else
              let (apointment, st1) = create st userId (to_number provider_id') hourStart in
              (case findUserByPk st1 userId of
                 None \<Rightarrow> (Inl (Thrown TypeError), st1)
               | Some u \<Rightarrow>
                   if sent then
                     (Inr apointment,
                      st1\<lparr>notifications := notifications st1 @
                            [\<lparr>content_name = name u, content_date = hourStart,
                              notified_user = to_number provider_id'\<rparr>]\<rparr>)
                   else (Inl (Thrown NotificationRejected), st1))
      | _ \<Rightarrow> (Inl ValidationFails, st))"

text \<open>
  \<open>store\<close> of the other copy of the controller: no self-booking check, no notification.
\<close>

definition store_plain :: "int \<Rightarrow> db \<Rightarrow> int \<Rightarrow> body \<Rightarrow> Date \<Rightarrow> (error + apointment) \<times> db" where
  "store_plain tz st userId b now =
     (case (body_provider_id b, body_date b) of
        (Some provider_id', Some d) \<Rightarrow>
          if findProvider st (to_number provider_id') = None then (Inl NotAProvider, st)
          else
            let hourStart = startOfHour tz d in
            if isBefore hourStart now then (Inl PastDate, st)
            else if checkAvailability st (to_number provider_id') hourStart \<noteq> None
              then (Inl SlotUnavailable, st)
            else
              let (apointment, st1) = create st userId (to_number provider_id') hourStart in
              (Inr apointment, st1)
      | _ \<Rightarrow> (Inl ValidationFails, st))"

text \<open>
  \<open>delete\<close>: \<open>now\<close> is the \<^verbatim>\<open>new Date()\<close> of the lead-time check, \<open>now'\<close> the later one
  stored in \<^verbatim>\<open>canceled_at\<close>; \<open>queued\<close> tells whether \<^verbatim>\<open>await Queue.add(...)\<close> resolves.
  \<^verbatim>\<open>findByPk\<close> answers \<^verbatim>\<open>null\<close> for an unknown key, and reading \<^verbatim>\<open>appointment.user_id\<close>
  of \<^verbatim>\<open>null\<close> throws a TypeError.
\<close>

definition delete :: "db \<Rightarrow> int \<Rightarrow> int \<Rightarrow> Date \<Rightarrow> Date \<Rightarrow> bool \<Rightarrow> (error + apointment) \<times> db" where
  "delete st userId i now now' queued =
     (case findByPk st i of
        None \<Rightarrow> (Inl (Thrown TypeError), st)
      | Some appointment \<Rightarrow>
          if user_id appointment \<noteq> userId then (Inl NotOwner, st)
          else
            let dateWithSub = subHours (date appointment) 2 in
            if isBefore dateWithSub now then (Inl TooLateToCancel, st)
            else
              let appointment' = appointment\<lparr>canceled_at := Some now'\<rparr>;
                  st1 = save_canceled_at st (apointment_pk appointment) now'
              in if queued then
                   (Inr appointment',
                    st1\<lparr>cancellation_jobs := cancellation_jobs st1 @ [appointment']\<rparr>)
                 else (Inl (Thrown QueueRejected), st1))"

section \<open>ScheduleController\<close>

text \<open>
  \<open>index\<close> of the schedule controller; \<open>d\<close> is \<^verbatim>\<open>parseISO(req.query.date)\<close>.
  \<^verbatim>\<open>Op.between\<close> is SQL's BETWEEN, both ends included.
\<close>

definition schedule_index :: "int \<Rightarrow> db \<Rightarrow> int \<Rightarrow> Date \<Rightarrow> error + apointment list" where
  "schedule_index tz st userId d =
     (if findProvider st userId = None then Inl UserIsNotProvider
      else Inr (filter (\<lambda>a. provider_id a = userId \<and> canceled_at a = None \<and>
                            startOfDay tz d \<le> date a \<and> date a \<le> endOfDay tz d)
                       (apointments st)))"

section \<open>Sequences of requests\<close>

text \<open>
  Requests are served one after another, each handler running to its end before the next
  starts; \<open>run\<close> threads the tables through a list of them. Two handlers interleaved
  between their awaits are not part of this model.
\<close>

datatype request =
    Store int body Date bool
  | Delete int int Date Date bool

fun exec :: "int \<Rightarrow> db \<Rightarrow> request \<Rightarrow> db" where
  "exec tz st (Store userId b now sent) = snd (store tz st userId b now sent)"
| "exec tz st (Delete userId i now now' queued) = snd (delete st userId i now now' queued)"

definition run :: "int \<Rightarrow> db \<Rightarrow> request list \<Rightarrow> db" where
  "run tz st rs = foldl (exec tz) st rs"

definition init_db :: "user list \<Rightarrow> db" where
  "init_db us = \<lparr>users = us, apointments = [], next_pk = 1, notifications = [],
                 cancellation_jobs = []\<rparr>"

text \<open>The active bookings of a provider at an instant.\<close>

definition active_at :: "db \<Rightarrow> int \<Rightarrow> Date \<Rightarrow> apointment list" where
  "active_at st pid d =
     filter (\<lambda>a. provider_id a = pid \<and> canceled_at a = None \<and> date a = d) (apointments st)"

text \<open>The row \<open>create\<close> inserts.\<close>

definition new_row :: "db \<Rightarrow> int \<Rightarrow> int \<Rightarrow> Date \<Rightarrow> apointment" where
  "new_row st uid pid d =
     \<lparr>apointment_pk = next_pk st, user_id = uid, provider_id = pid, date = d, canceled_at = None\<rparr>"

text \<open>Every primary key in the table is below the next value of the sequence.\<close>

definition pk_bound :: "db \<Rightarrow> bool" where
  "pk_bound st = (\<forall>a \<in> set (apointments st). apointment_pk a < next_pk st)"

text \<open>At most one active booking for each provider and instant.\<close>

definition slot_exclusive :: "db \<Rightarrow> bool" where
  "slot_exclusive st = (\<forall>pid d. length (active_at st pid d) \<le> 1)"

text \<open>Two versions of one row: the columns no handler writes after \<open>create\<close> agree.\<close>

definition same_booking :: "apointment \<Rightarrow> apointment \<Rightarrow> bool" where
  "same_booking a a' =
     (apointment_pk a' = apointment_pk a \<and> user_id a' = user_id a \<and>
      provider_id a' = provider_id a \<and> date a' = date a)"

text \<open>
  The calendar day in words: two instants lie on the same local calendar day when their
  local clocks hold the same number of whole days.
\<close>

definition on_same_day :: "int \<Rightarrow> Date \<Rightarrow> Date \<Rightarrow> bool" where
  "on_same_day tz x d = ((x + tz) div 86400000 = (d + tz) div 86400000)"

section \<open>Example data\<close>

definition example_users :: "user list" where
  "example_users =
     [\<lparr>user_pk = 1, name = ''Ana'', provider = True\<rparr>,
      \<lparr>user_pk = 2, name = ''Bruno'', provider = False\<rparr>,
      \<lparr>user_pk = 3, name = ''Caio'', provider = False\<rparr>,
      \<lparr>user_pk = 4, name = ''Duda'', provider = True\<rparr>]"

definition example_body :: "int \<Rightarrow> Date \<Rightarrow> body" where
  "example_body pid d = \<lparr>body_provider_id = Some (Number pid), body_date = Some d\<rparr>"

text \<open>The same request with the provider's key sent as a string.\<close>

definition example_body_string :: "int \<Rightarrow> Date \<Rightarrow> body" where
  "example_body_string pid d =
     \<lparr>body_provider_id = Some (NumericString pid), body_date = Some d\<rparr>"

text \<open>One active booking of user 2 with provider 1 at 03:00:00.000 of the first day.\<close>

definition example_db :: db where
  "example_db =
     \<lparr>users = example_users,
      apointments = [\<lparr>apointment_pk = 1, user_id = 2, provider_id = 1, date = 10800000,
                      canceled_at = None\<rparr>],
      next_pk = 2, notifications = [], cancellation_jobs = []\<rparr>"

text \<open>
  Four bookings: provider 1 at 03:00 of the first day, provider 1 at 04:00 of the first day
  but cancelled, provider 1 at 01:00 of the second day, provider 4 at 03:00 of the first day.
\<close>

definition example_schedule :: db where
  "example_schedule =
     \<lparr>users = example_users,
      apointments =
        [\<lparr>apointment_pk = 1, user_id = 2, provider_id = 1, date = 10800000, canceled_at = None\<rparr>,
         \<lparr>apointment_pk = 2, user_id = 3, provider_id = 1, date = 14400000, canceled_at = Some 5\<rparr>,
         \<lparr>apointment_pk = 3, user_id = 2, provider_id = 1, date = 90000000, canceled_at = None\<rparr>,
         \<lparr>apointment_pk = 4, user_id = 3, provider_id = 4, date = 10800000, canceled_at = None\<rparr>],
      next_pk = 5, notifications = [], cancellation_jobs = []\<rparr>"

section \<open>Evaluation and list facts\<close>

lemmas eval_defs = store_def store_plain_def delete_def create_def save_canceled_at_def
  schedule_index_def findProvider_def findUserByPk_def checkAvailability_def findByPk_def
  startOfHour_def startOfDay_def endOfDay_def isBefore_def subHours_def
  MILLISECONDS_IN_HOUR_def MILLISECONDS_IN_DAY_def init_db_def run_def
  example_users_def example_body_def example_body_string_def example_db_def example_schedule_def Let_def

lemma find_append_first: "find P xs = Some x \<Longrightarrow> find P (xs @ ys) = Some x"
  by (induction xs) (auto split: if_splits)

lemma find_append_fresh: "\<forall>x \<in> set xs. \<not> P x \<Longrightarrow> find P (xs @ ys) = find P ys"
  by (induction xs) auto

lemma find_map_stable:
  "(\<And>x. P (f x) = P x) \<Longrightarrow> find P (map f xs) = map_option f (find P xs)"
  by (induction xs) auto

lemma length_filter_map_le:
  "(\<And>x. P (f x) \<Longrightarrow> P x) \<Longrightarrow> length (filter P (map f xs)) \<le> length (filter P xs)"
  by (induction xs) (auto simp: le_SucI)

section \<open>Time rules\<close>

lemma startOfHour_aligned: "(startOfHour tz d + tz) mod MILLISECONDS_IN_HOUR = 0"
proof -
  have "startOfHour tz d + tz = (d + tz) - (d + tz) mod MILLISECONDS_IN_HOUR"
    by (simp add: startOfHour_def)
  then show ?thesis
    by (simp add: minus_mod_eq_mult_div)
qed

lemma startOfHour_bounds: "startOfHour tz T \<le> T \<and> T < startOfHour tz T + 3600000"
proof -
  have "0 \<le> (T + tz) mod 3600000" "(T + tz) mod 3600000 < 3600000"
    by simp_all
  then show ?thesis
    by (simp add: startOfHour_def MILLISECONDS_IN_HOUR_def)
qed

text \<open>
  C8: normalising an instant to the start of its hour is idempotent, for every instant and
  every zone offset.
\<close>

theorem startOfHour_idempotent: "startOfHour tz (startOfHour tz t) = startOfHour tz t"
proof -
  have "startOfHour tz (startOfHour tz t) =
        startOfHour tz t - (startOfHour tz t + tz) mod MILLISECONDS_IN_HOUR"
    by (simp add: startOfHour_def)
  then show ?thesis
    by (simp add: startOfHour_aligned)
qed

text \<open>
  The interval the schedule query uses, from \<open>startOfDay\<close> to \<open>endOfDay\<close> with both ends
  included, holds exactly the instants of the queried local calendar day.
\<close>

lemma same_day_between:
  "(startOfDay tz d \<le> x \<and> x \<le> endOfDay tz d) = on_same_day tz x d"
proof -
  let ?D = "86400000 :: int"
  have s: "startOfDay tz d + tz = ((d + tz) div ?D) * ?D"
    using minus_mod_eq_div_mult [of "d + tz" ?D]
    by (simp add: startOfDay_def MILLISECONDS_IN_DAY_def)
  have e: "endOfDay tz d + tz = ((d + tz) div ?D) * ?D + (?D - 1)"
    using s by (simp add: endOfDay_def MILLISECONDS_IN_DAY_def)
  have "(startOfDay tz d \<le> x \<and> x \<le> endOfDay tz d) =
        (((d + tz) div ?D) * ?D \<le> x + tz \<and> x + tz < ((d + tz) div ?D) * ?D + ?D)"
    using s e by auto
  also have "\<dots> = ((x + tz) div ?D = (d + tz) div ?D)"
  proof
    assume "((d + tz) div ?D) * ?D \<le> x + tz \<and> x + tz < ((d + tz) div ?D) * ?D + ?D"
    then show "(x + tz) div ?D = (d + tz) div ?D"
      by (intro int_div_pos_eq [where r = "x + tz - ((d + tz) div ?D) * ?D"]) auto
  next
    assume eq: "(x + tz) div ?D = (d + tz) div ?D"
    have "((x + tz) div ?D) * ?D \<le> x + tz" "x + tz < ((x + tz) div ?D) * ?D + ?D"
      using div_mult_mod_eq [of "x + tz" ?D] pos_mod_bound [of ?D "x + tz"]
        pos_mod_sign [of ?D "x + tz"]
      by linarith+
    with eq show "((d + tz) div ?D) * ?D \<le> x + tz \<and> x + tz < ((d + tz) div ?D) * ?D + ?D"
      by simp
  qed
  finally show ?thesis by (simp add: on_same_day_def)
qed

section \<open>What the handlers do to the tables\<close>

lemma store_users: "users (snd (store tz st u b now sent)) = users st"
  by (simp add: store_def create_def Let_def split: option.splits prod.splits)

lemma delete_users: "users (snd (delete st u i t t' queued)) = users st"
  by (simp add: delete_def save_canceled_at_def Let_def split: option.splits)

lemma exec_users: "users (exec tz st r) = users st"
  by (cases r) (simp_all add: store_users delete_users)

lemma run_users: "users (run tz st rs) = users st"
  unfolding run_def by (induction rs arbitrary: st) (simp_all add: exec_users)

text \<open>
  \<open>store\<close> either leaves the appointment table alone and answers no row, or it passed
  every check and appended the new row.
\<close>

lemma store_table:
  "(apointments (snd (store tz st u b now sent)) = apointments st \<and>
    next_pk (snd (store tz st u b now sent)) = next_pk st \<and>
    (\<forall>a. fst (store tz st u b now sent) \<noteq> Inr a)) \<or>
   (\<exists>v pid d. body_provider_id b = Some v \<and> to_number v = pid \<and> body_date b = Some d \<and>
      findProvider st pid \<noteq> None \<and> strict_not_equal v u \<and>
      \<not> isBefore (startOfHour tz d) now \<and>
      checkAvailability st pid (startOfHour tz d) = None \<and>
      apointments (snd (store tz st u b now sent)) =
        apointments st @ [new_row st u pid (startOfHour tz d)] \<and>
      next_pk (snd (store tz st u b now sent)) = next_pk st + 1 \<and>
      (\<forall>a. fst (store tz st u b now sent) = Inr a \<longrightarrow>
           a = new_row st u pid (startOfHour tz d)))"
  by (auto simp add: store_def create_def new_row_def Let_def split: option.splits prod.splits)

lemma store_success:
  assumes "store tz st u b now sent = (Inr a, st1)"
  shows "\<exists>v pid d. body_provider_id b = Some v \<and> to_number v = pid \<and> body_date b = Some d \<and>
           findProvider st pid \<noteq> None \<and> strict_not_equal v u \<and>
           \<not> isBefore (startOfHour tz d) now \<and>
           a = new_row st u pid (startOfHour tz d) \<and>
           apointments st1 = apointments st @ [a]"
  using store_table [of tz st u b now sent] assms by auto

text \<open>\<open>delete\<close> either leaves the table alone or sets \<open>canceled_at\<close> on the rows of the key.\<close>

lemma delete_table:
  "(apointments (snd (delete st u i t t' queued)) = apointments st \<or>
    (\<exists>c. apointments (snd (delete st u i t t' queued)) =
       map (\<lambda>a. if apointment_pk a = i then a\<lparr>canceled_at := Some c\<rparr> else a) (apointments st))) \<and>
   next_pk (snd (delete st u i t t' queued)) = next_pk st"
  by (auto simp add: delete_def save_canceled_at_def Let_def findByPk_def
           split: option.splits dest!: find_Some_iff [THEN iffD1])

lemma delete_success:
  assumes "fst (delete st u i t t' queued) = Inr c"
  shows "\<exists>x. findByPk st i = Some x \<and> apointment_pk x = i \<and> user_id x = u \<and>
             \<not> isBefore (subHours (date x) 2) t \<and> queued \<and> c = x\<lparr>canceled_at := Some t'\<rparr>"
proof -
  from assms obtain x where x: "findByPk st i = Some x" "user_id x = u"
    "\<not> isBefore (subHours (date x) 2) t" "queued" "c = x\<lparr>canceled_at := Some t'\<rparr>"
    by (auto simp: delete_def Let_def split: option.splits if_splits)
  moreover have "apointment_pk x = i"
    using x(1) by (auto simp: findByPk_def find_Some_iff)
  ultimately show ?thesis by blast
qed

lemma findByPk_save:
  assumes "findByPk st i = Some x"
  shows "findByPk (save_canceled_at st i t) i = Some (x\<lparr>canceled_at := Some t\<rparr>)"
proof -
  let ?f = "\<lambda>a. if apointment_pk a = i then a\<lparr>canceled_at := Some t\<rparr> else a"
  have pk: "apointment_pk x = i"
    using assms by (auto simp: findByPk_def find_Some_iff)
  have "find (\<lambda>a. apointment_pk a = i) (map ?f (apointments st)) =
        map_option ?f (find (\<lambda>a. apointment_pk a = i) (apointments st))"
    by (rule find_map_stable) simp
  then show ?thesis
    using assms pk by (simp add: findByPk_def save_canceled_at_def)
qed

lemma delete_written:
  assumes "findByPk st i = Some x" "user_id x = u" "\<not> isBefore (subHours (date x) 2) t"
  shows "findByPk (snd (delete st u i t t' queued)) i = Some (x\<lparr>canceled_at := Some t'\<rparr>)"
proof -
  have pk: "apointment_pk x = i"
    using assms(1) by (auto simp: findByPk_def find_Some_iff)
  have "findByPk (save_canceled_at st i t') i = Some (x\<lparr>canceled_at := Some t'\<rparr>)"
    by (rule findByPk_save [OF assms(1)])
  then show ?thesis
    using assms pk by (simp add: delete_def Let_def findByPk_def)
qed

section \<open>Invariants of request sequences\<close>

lemma init_pk_bound: "pk_bound (init_db us)"
  by (simp add: pk_bound_def init_db_def)

lemma store_pk_bound: "pk_bound st \<Longrightarrow> pk_bound (snd (store tz st u b now sent))"
  using store_table [of tz st u b now sent]
  by (fastforce simp: pk_bound_def new_row_def)

lemma delete_pk_bound: "pk_bound st \<Longrightarrow> pk_bound (snd (delete st u i t t' queued))"
  using delete_table [of st u i t t' queued]
  by (fastforce simp: pk_bound_def)

lemma exec_pk_bound: "pk_bound st \<Longrightarrow> pk_bound (exec tz st r)"
  by (cases r) (simp_all add: store_pk_bound delete_pk_bound)

lemma run_pk_bound: "pk_bound st \<Longrightarrow> pk_bound (run tz st rs)"
  unfolding run_def by (induction rs arbitrary: st) (simp_all add: exec_pk_bound)

lemma checkAvailability_active: "(checkAvailability st pid d = None) = (active_at st pid d = [])"
  by (auto simp add: checkAvailability_def active_at_def find_None_iff filter_empty_conv)

lemma init_slot_exclusive: "slot_exclusive (init_db us)"
  by (simp add: slot_exclusive_def active_at_def init_db_def)

lemma store_slot_exclusive:
  assumes "slot_exclusive st"
  shows "slot_exclusive (snd (store tz st u b now sent))"
proof -
  let ?st' = "snd (store tz st u b now sent)"
  from store_table [of tz st u b now sent]
  consider (same) "apointments ?st' = apointments st"
    | (new) pid d where "checkAvailability st pid d = None"
        "apointments ?st' = apointments st @ [new_row st u pid d]"
    by blast
  then show ?thesis
  proof cases
    case same
    with assms show ?thesis by (simp add: slot_exclusive_def active_at_def)
  next
    case new
    show ?thesis
      unfolding slot_exclusive_def
    proof (intro allI)
      fix p e
      show "length (active_at ?st' p e) \<le> 1"
      proof (cases "p = pid \<and> e = d")
        case True
        with new have "active_at st p e = []"
          by (simp add: checkAvailability_active)
        with new show ?thesis
          by (simp add: active_at_def)
      next
        case False
        then have "active_at ?st' p e = active_at st p e"
          using new by (auto simp: active_at_def new_row_def)
        with assms show ?thesis by (simp add: slot_exclusive_def)
      qed
    qed
  qed
qed

lemma delete_slot_exclusive:
  assumes "slot_exclusive st"
  shows "slot_exclusive (snd (delete st u i t t' queued))"
proof -
  let ?st' = "snd (delete st u i t t' queued)"
  from delete_table [of st u i t t' queued]
  consider (same) "apointments ?st' = apointments st"
    | (upd) c where "apointments ?st' =
        map (\<lambda>a. if apointment_pk a = i then a\<lparr>canceled_at := Some c\<rparr> else a) (apointments st)"
    by blast
  then show ?thesis
  proof cases
    case same
    with assms show ?thesis by (simp add: slot_exclusive_def active_at_def)
  next
    case upd
    have "length (active_at ?st' p e) \<le> length (active_at st p e)" for p e
      unfolding active_at_def upd
      by (rule length_filter_map_le) (simp split: if_splits)
    with assms show ?thesis
      unfolding slot_exclusive_def by (meson order_trans)
  qed
qed

lemma exec_slot_exclusive: "slot_exclusive st \<Longrightarrow> slot_exclusive (exec tz st r)"
  by (cases r) (simp_all add: store_slot_exclusive delete_slot_exclusive)

lemma run_slot_exclusive: "slot_exclusive st \<Longrightarrow> slot_exclusive (run tz st rs)"
  unfolding run_def by (induction rs arbitrary: st) (simp_all add: exec_slot_exclusive)

text \<open>
  A stored row stays stored under every later request, with the same key, requester,
  provider and date; once cancelled it stays cancelled.
\<close>

lemma store_findByPk:
  assumes "findByPk st i = Some a"
  shows "findByPk (snd (store tz st u b now sent)) i = Some a"
  using store_table [of tz st u b now sent] assms
  by (auto simp: findByPk_def find_append_first)

lemma delete_findByPk:
  assumes "findByPk st i = Some a"
  shows "\<exists>a'. findByPk (snd (delete st u j t t' queued)) i = Some a' \<and> same_booking a a' \<and>
              (canceled_at a \<noteq> None \<longrightarrow> canceled_at a' \<noteq> None)"
proof -
  let ?st' = "snd (delete st u j t t' queued)"
  from delete_table [of st u j t t' queued]
  consider (same) "apointments ?st' = apointments st"
    | (upd) c where "apointments ?st' =
        map (\<lambda>a. if apointment_pk a = j then a\<lparr>canceled_at := Some c\<rparr> else a) (apointments st)"
    by blast
  then show ?thesis
  proof cases
    case same
    with assms show ?thesis by (simp add: findByPk_def same_booking_def)
  next
    case upd
    let ?f = "\<lambda>a. if apointment_pk a = j then a\<lparr>canceled_at := Some c\<rparr> else a"
    have "findByPk ?st' i = map_option ?f (findByPk st i)"
      unfolding findByPk_def upd by (rule find_map_stable) simp
    with assms show ?thesis by (simp add: same_booking_def)
  qed
qed

lemma exec_findByPk:
  assumes "findByPk st i = Some a"
  shows "\<exists>a'. findByPk (exec tz st r) i = Some a' \<and> same_booking a a' \<and>
              (canceled_at a \<noteq> None \<longrightarrow> canceled_at a' \<noteq> None)"
proof (cases r)
  case (Store u b now sent)
  with store_findByPk [OF assms] show ?thesis by (simp add: same_booking_def)
next
  case (Delete u j t t' queued)
  with delete_findByPk [OF assms] show ?thesis by simp
qed

lemma run_findByPk:
  "findByPk st i = Some a \<Longrightarrow>
   \<exists>a'. findByPk (run tz st rs) i = Some a' \<and> same_booking a a' \<and>
        (canceled_at a \<noteq> None \<longrightarrow> canceled_at a' \<noteq> None)"
proof (induction rs arbitrary: st a)
  case Nil
  then show ?case by (simp add: run_def same_booking_def)
next
  case (Cons r rs)
  from exec_findByPk [OF Cons.prems, of tz r]
  obtain a1 where a1: "findByPk (exec tz st r) i = Some a1" "same_booking a a1"
    "canceled_at a \<noteq> None \<longrightarrow> canceled_at a1 \<noteq> None" by blast
  from Cons.IH [OF a1(1)]
  obtain a2 where a2: "findByPk (run tz (exec tz st r) rs) i = Some a2" "same_booking a1 a2"
    "canceled_at a1 \<noteq> None \<longrightarrow> canceled_at a2 \<noteq> None" by blast
  have "run tz st (r # rs) = run tz (exec tz st r) rs" by (simp add: run_def)
  with a1 a2 show ?case by (auto simp: same_booking_def)
qed

section \<open>Booking a slot\<close>

text \<open>
  C1, as the code has it. Let a request for provider \<open>p\<close> at time \<open>T\<close> succeed in a state
  reached from an empty appointment table, and let its booking still be active after any
  later requests \<open>rs'\<close>. Then every further request for \<open>p\<close> at a time \<open>T'\<close> of the same
  hour is refused and changes nothing. The checks run in the order of the handler: the
  refusal is \<open>SelfBookingNotAllowed\<close> when the handler's self-booking test fires,
  \<open>PastDate\<close> when the test passes and the hour has begun before the new request's clock
  reading, and \<open>SlotUnavailable\<close> in every other case, so in every case where the
  requester is not \<open>p\<close> and the hour has not begun. In that state each provider has at
  most one active booking at each instant.
\<close>

theorem booked_slot_refuses_requests:
  assumes first: "store tz (run tz (init_db us) rs) u b now sent = (Inr a, st1)"
    and b: "body_provider_id b = Some v" "to_number v = p" "body_date b = Some T"
    and active: "findByPk (run tz st1 rs') (apointment_pk a) = Some a'" "canceled_at a' = None"
    and b': "body_provider_id b' = Some v'" "to_number v' = p" "body_date b' = Some T'"
    and hour: "startOfHour tz T' = startOfHour tz T"
  shows "store tz (run tz st1 rs') u' b' now' sent' =
           (Inl (if \<not> strict_not_equal v' u' then SelfBookingNotAllowed
                 else if isBefore (startOfHour tz T) now' then PastDate
                 else SlotUnavailable),
            run tz st1 rs') \<and>
         (u' \<noteq> p \<longrightarrow> \<not> isBefore (startOfHour tz T) now' \<longrightarrow>
            fst (store tz (run tz st1 rs') u' b' now' sent') = Inl SlotUnavailable) \<and>
         slot_exclusive (run tz st1 rs')"
proof -
  let ?st = "run tz (init_db us) rs"
  let ?st2 = "run tz st1 rs'"
  have st1: "st1 = exec tz ?st (Store u b now sent)"
    using first by simp
  have bound: "pk_bound ?st"
    by (simp add: run_pk_bound init_pk_bound)
  from store_success [OF first] b
  have prov: "findProvider ?st p \<noteq> None"
    and a: "a = new_row ?st u p (startOfHour tz T)"
    and tab: "apointments st1 = apointments ?st @ [a]"
    by auto
  have "\<forall>x \<in> set (apointments ?st). apointment_pk x \<noteq> apointment_pk a"
    using bound a by (auto simp: pk_bound_def new_row_def)
  then have "findByPk st1 (apointment_pk a) = Some a"
    unfolding findByPk_def tab by (simp add: find_append_fresh)
  from run_findByPk [OF this, of tz rs'] active
  have same: "same_booking a a'" by auto
  have "a' \<in> set (apointments ?st2)"
    using active(1) by (auto simp: findByPk_def find_Some_iff)
  moreover have "provider_id a' = p" "date a' = startOfHour tz T"
    using same a by (simp_all add: same_booking_def new_row_def)
  ultimately have taken: "checkAvailability ?st2 p (startOfHour tz T) \<noteq> None"
    using active(2) by (auto simp: checkAvailability_def find_None_iff)
  have prov2: "findProvider ?st2 p \<noteq> None"
    using prov by (simp add: findProvider_def run_users st1 store_users)
  have answer: "store tz ?st2 u' b' now' sent' =
          (Inl (if \<not> strict_not_equal v' u' then SelfBookingNotAllowed
                else if isBefore (startOfHour tz T) now' then PastDate
                else SlotUnavailable), ?st2)"
    using b' hour taken prov2 by (auto simp: store_def)
  have other: "strict_not_equal v' u'" if "u' \<noteq> p"
    using that b'(2) by (cases v') auto
  have "fst (store tz ?st2 u' b' now' sent') = Inl SlotUnavailable"
    if "u' \<noteq> p" "\<not> isBefore (startOfHour tz T) now'"
    using answer other that by simp
  moreover have "slot_exclusive ?st2"
    unfolding st1
    by (intro run_slot_exclusive exec_slot_exclusive init_slot_exclusive)
  ultimately show ?thesis
    using answer by blast
qed

text \<open>
  An instance: user 2 books provider 1 for 02:00:00.005, a stranger's cancel attempt is
  refused, and user 3 asking for 02:00:01.000 is told the slot is taken.
\<close>

theorem booked_slot_refuses_requests_witness:
  "store 0 (run 0 (snd (store 0 (run 0 (init_db example_users) []) 2 (example_body 1 7200005) 0 True))
                [Delete 3 1 0 1 True])
         3 (example_body 1 7201000) 10 True =
     (Inl SlotUnavailable,
      run 0 (snd (store 0 (run 0 (init_db example_users) []) 2 (example_body 1 7200005) 0 True))
                [Delete 3 1 0 1 True])"
proof -
  let ?a = "\<lparr>apointment_pk = 1, user_id = 2, provider_id = 1, date = 7200000, canceled_at = None\<rparr>"
  let ?st1 = "snd (store 0 (run 0 (init_db example_users) []) 2 (example_body 1 7200005) 0 True)"
  have h1: "store 0 (run 0 (init_db example_users) []) 2 (example_body 1 7200005) 0 True =
              (Inr ?a, ?st1)"
    by (simp add: eval_defs)
  have h2: "body_provider_id (example_body 1 7200005) = Some (Number 1)" "to_number (Number 1) = 1"
    "body_date (example_body 1 7200005) = Some 7200005"
    by (simp_all add: example_body_def)
  have h3: "findByPk (run 0 ?st1 [Delete 3 1 0 1 True]) (apointment_pk ?a) = Some ?a"
    "canceled_at ?a = None"
    by (simp_all add: eval_defs)
  have h4: "body_provider_id (example_body 1 7201000) = Some (Number 1)"
    "body_date (example_body 1 7201000) = Some 7201000"
    by (simp_all add: example_body_def)
  have h5: "startOfHour 0 7201000 = startOfHour 0 7200005"
    by (simp add: eval_defs)
  from booked_slot_refuses_requests [OF h1 h2 h3 h4(1) h2(2) h4(2) h5, of 3 10 True]
  show ?thesis
    by (simp add: eval_defs)
qed

text \<open>
  Against C1 as stated: after user 2 has booked provider 1 for the hour starting at
  02:00, the same request sent by provider 1 is refused as a self-booking, and the same
  request sent by user 3 one millisecond after 02:00 is refused as a past date; neither
  answer is \<open>SlotUnavailable\<close>.
\<close>

theorem second_request_other_error:
  "fst (store 0 (init_db example_users) 2 (example_body 1 7200005) 0 True) =
     Inr \<lparr>apointment_pk = 1, user_id = 2, provider_id = 1, date = 7200000, canceled_at = None\<rparr> \<and>
   fst (store 0 (snd (store 0 (init_db example_users) 2 (example_body 1 7200005) 0 True))
          1 (example_body 1 7200005) 0 True) = Inl SelfBookingNotAllowed \<and>
   fst (store 0 (snd (store 0 (init_db example_users) 2 (example_body 1 7200005) 0 True))
          3 (example_body 1 7200005) 7200001 True) = Inl PastDate"
  by (simp add: eval_defs)

section \<open>Notification and cancellation mail\<close>

lemma store_sent_irrelevant:
  "apointments (snd (store tz st u b now False)) = apointments (snd (store tz st u b now True))"
  by (auto simp: store_def create_def Let_def split: option.splits prod.splits)

lemma delete_queued_irrelevant:
  "apointments (snd (delete st u i t t' False)) = apointments (snd (delete st u i t t' True))"
  by (auto simp: delete_def save_canceled_at_def Let_def split: option.splits)

lemma store_unsent:
  assumes "fst (store tz st u b now True) = Inr a"
  shows "fst (store tz st u b now False) = Inl (Thrown NotificationRejected) \<and>
         a \<in> set (apointments (snd (store tz st u b now False)))"
  using assms
  by (auto simp: store_def create_def Let_def split: option.splits prod.splits if_splits)

lemma delete_unqueued:
  assumes "fst (delete st u i t t' True) = Inr c"
  shows "fst (delete st u i t t' False) = Inl (Thrown QueueRejected) \<and>
         findByPk (snd (delete st u i t t' False)) i = Some c"
proof -
  from delete_success [OF assms] obtain x where x: "findByPk st i = Some x" "user_id x = u"
    "\<not> isBefore (subHours (date x) 2) t" "c = x\<lparr>canceled_at := Some t'\<rparr>"
    by blast
  have "fst (delete st u i t t' False) = Inl (Thrown QueueRejected)"
    using x by (simp add: delete_def Let_def)
  with delete_written [OF x(1,2,3), of t' False] x(4) show ?thesis by simp
qed

text \<open>
  C2, as the code has it. The notification is sent after the row is created and the job
  is queued after the cancellation is saved, so a failure of either leaves the
  appointment table exactly as a success does: the booking stays created, the
  cancellation stays saved. Both calls are awaited inside the handler and nothing catches
  their rejection: where the caller would have received the booking, a failed send
  answers the exception \<open>NotificationRejected\<close> instead, and a failed enqueue the
  exception \<open>QueueRejected\<close>.
\<close>

theorem side_effect_failure_keeps_write:
  "apointments (snd (store tz st u b now False)) = apointments (snd (store tz st u b now True)) \<and>
   (fst (store tz st u b now True) = Inr a \<longrightarrow>
      fst (store tz st u b now False) = Inl (Thrown NotificationRejected) \<and>
      a \<in> set (apointments (snd (store tz st u b now False)))) \<and>
   apointments (snd (delete st' u' i t t' False)) = apointments (snd (delete st' u' i t t' True)) \<and>
   (fst (delete st' u' i t t' True) = Inr c \<longrightarrow>
      fst (delete st' u' i t t' False) = Inl (Thrown QueueRejected) \<and>
      findByPk (snd (delete st' u' i t t' False)) i = Some c)"
proof (intro conjI impI)
  show "apointments (snd (store tz st u b now False)) = apointments (snd (store tz st u b now True))"
    by (rule store_sent_irrelevant)
  show "apointments (snd (delete st' u' i t t' False)) = apointments (snd (delete st' u' i t t' True))"
    by (rule delete_queued_irrelevant)
next
  assume "fst (store tz st u b now True) = Inr a"
  from store_unsent [OF this]
  show "fst (store tz st u b now False) = Inl (Thrown NotificationRejected)"
    and "a \<in> set (apointments (snd (store tz st u b now False)))"
    by simp_all
next
  assume "fst (delete st' u' i t t' True) = Inr c"
  from delete_unqueued [OF this]
  show "fst (delete st' u' i t t' False) = Inl (Thrown QueueRejected)"
    and "findByPk (snd (delete st' u' i t t' False)) i = Some c"
    by simp_all
qed

text \<open>An instance of both halves, on the example users and the example booking.\<close>

theorem side_effect_failure_keeps_write_witness:
  "fst (store 0 (init_db example_users) 2 (example_body 1 7200005) 0 False) =
     Inl (Thrown NotificationRejected) \<and>
   \<lparr>apointment_pk = 1, user_id = 2, provider_id = 1, date = 7200000, canceled_at = None\<rparr>
     \<in> set (apointments (snd (store 0 (init_db example_users) 2 (example_body 1 7200005) 0 False))) \<and>
   fst (delete example_db 2 1 0 5 False) = Inl (Thrown QueueRejected) \<and>
   findByPk (snd (delete example_db 2 1 0 5 False)) 1 =
     Some \<lparr>apointment_pk = 1, user_id = 2, provider_id = 1, date = 10800000,
           canceled_at = Some 5\<rparr>"
proof -
  let ?a = "\<lparr>apointment_pk = 1, user_id = 2, provider_id = 1, date = 7200000, canceled_at = None\<rparr>"
  let ?c = "\<lparr>apointment_pk = 1, user_id = 2, provider_id = 1, date = 10800000,
             canceled_at = Some 5\<rparr>"
  have h1: "fst (store 0 (init_db example_users) 2 (example_body 1 7200005) 0 True) = Inr ?a"
    by (simp add: eval_defs)
  have h2: "fst (delete example_db 2 1 0 5 True) = Inr ?c"
    by (simp add: eval_defs)
  from side_effect_failure_keeps_write
    [of 0 "init_db example_users" 2 "example_body 1 7200005" 0 ?a example_db 2 1 0 5 ?c] h1 h2
  show ?thesis by blast
qed

text \<open>
  Against C2 as stated: the same booking request answers the booking when the
  notification is accepted and an exception when it is rejected, and the same cancel
  request answers the cancelled booking when the job is queued and an exception when it
  is not.
\<close>

theorem notification_failure_reaches_caller:
  "fst (store 0 (init_db example_users) 2 (example_body 1 7200005) 0 True) =
     Inr \<lparr>apointment_pk = 1, user_id = 2, provider_id = 1, date = 7200000, canceled_at = None\<rparr> \<and>
   fst (store 0 (init_db example_users) 2 (example_body 1 7200005) 0 False) =
     Inl (Thrown NotificationRejected) \<and>
   fst (delete example_db 2 1 0 5 True) =
     Inr \<lparr>apointment_pk = 1, user_id = 2, provider_id = 1, date = 10800000,
          canceled_at = Some 5\<rparr> \<and>
   fst (delete example_db 2 1 0 5 False) = Inl (Thrown QueueRejected)"
  by (simp add: eval_defs)

section \<open>Cancelling\<close>

text \<open>
  C3, what the code does: for a key that denotes no stored booking, \<open>delete\<close> ends in a
  TypeError, the read of \<^verbatim>\<open>user_id\<close> on \<^verbatim>\<open>null\<close>; it answers none of its error
  responses, and the tables stay as they were.
\<close>

theorem delete_unknown_booking_throws:
  "findByPk st i = None \<Longrightarrow> delete st u i t t' queued = (Inl (Thrown TypeError), st)"
  by (simp add: delete_def)

text \<open>An instance: key 7 in a table that holds key 1 only.\<close>

theorem delete_unknown_booking_throws_witness:
  "findByPk example_db 7 = None \<and>
   delete example_db 2 7 0 5 True = (Inl (Thrown TypeError), example_db)"
proof -
  have h: "findByPk example_db 7 = None"
    by (simp add: eval_defs)
  from h delete_unknown_booking_throws [OF h, of 2 0 5 True] show ?thesis by simp
qed

text \<open>
  C4, as the code has it. For a stored booking of the caller, \<open>delete\<close> answers
  \<open>TooLateToCancel\<close> exactly when the booking's date minus two hours is strictly before
  the clock reading, that is when less than two hours remain. With two hours or more the
  lead-time check passes: the cancellation is saved and the answer depends on the queue
  only.
\<close>

theorem too_late_iff_less_than_two_hours:
  assumes "findByPk st i = Some a" and "user_id a = u"
  shows "(fst (delete st u i t t' queued) = Inl TooLateToCancel) = (date a - 7200000 < t) \<and>
         (t \<le> date a - 7200000 \<longrightarrow>
            fst (delete st u i t t' queued) =
              (if queued then Inr (a\<lparr>canceled_at := Some t'\<rparr>) else Inl (Thrown QueueRejected)) \<and>
            findByPk (snd (delete st u i t t' queued)) i = Some (a\<lparr>canceled_at := Some t'\<rparr>))"
proof -
  have late: "isBefore (subHours (date a) 2) t = (date a - 7200000 < t)"
    by (simp add: isBefore_def subHours_def MILLISECONDS_IN_HOUR_def)
  have "(fst (delete st u i t t' queued) = Inl TooLateToCancel) = (date a - 7200000 < t)"
    using assms late by (simp add: delete_def Let_def)
  moreover have "fst (delete st u i t t' queued) =
      (if queued then Inr (a\<lparr>canceled_at := Some t'\<rparr>) else Inl (Thrown QueueRejected))"
    if "t \<le> date a - 7200000"
    using assms late that by (simp add: delete_def Let_def)
  moreover have "findByPk (snd (delete st u i t t' queued)) i = Some (a\<lparr>canceled_at := Some t'\<rparr>)"
    if "t \<le> date a - 7200000"
    using delete_written [OF assms, of t t' queued] late that by simp
  ultimately show ?thesis by blast
qed

text \<open>
  An instance: the example booking is at 03:00. One millisecond after 01:00 the cancel is
  too late, one millisecond before 01:00 it goes through.
\<close>

theorem too_late_iff_less_than_two_hours_witness:
  "fst (delete example_db 2 1 3600001 3600005 True) = Inl TooLateToCancel \<and>
   fst (delete example_db 2 1 3599999 3600005 True) =
     Inr \<lparr>apointment_pk = 1, user_id = 2, provider_id = 1, date = 10800000,
          canceled_at = Some 3600005\<rparr>"
proof -
  let ?a = "\<lparr>apointment_pk = 1, user_id = 2, provider_id = 1, date = 10800000,
             canceled_at = None\<rparr>"
  have h1: "findByPk example_db 1 = Some ?a"
    by (simp add: eval_defs)
  have h2: "user_id ?a = 2"
    by simp
  from too_late_iff_less_than_two_hours [OF h1 h2, of 3600001 3600005 True]
       too_late_iff_less_than_two_hours [OF h1 h2, of 3599999 3600005 True]
  show ?thesis by simp
qed

text \<open>
  Against C4 as stated: the example booking is at 03:00 and the clock reads 01:00 sharp,
  so the date minus two hours is not after the clock reading, and yet the cancel goes
  through.
\<close>

theorem cancel_at_exactly_two_hours:
  "subHours 10800000 2 \<le> 3600000 \<and>
   fst (delete example_db 2 1 3600000 3600005 True) =
     Inr \<lparr>apointment_pk = 1, user_id = 2, provider_id = 1, date = 10800000,
          canceled_at = Some 3600005\<rparr>"
  by (simp add: eval_defs)

section \<open>Self-booking\<close>

text \<open>
  What the self-booking test of \<open>store\<close> catches: a request whose provider is the
  requester's key sent as a number never changes any table. Its answer follows the order
  of the checks: \<open>ValidationFails\<close> when the date is missing, \<open>NotAProvider\<close> when the
  requester is not a provider, and \<open>SelfBookingNotAllowed\<close> otherwise.
\<close>

lemma self_booking_by_number_refused:
  assumes "body_provider_id b = Some (Number u)"
  shows "store tz st u b now sent =
           (Inl (if body_date b = None then ValidationFails
                 else if findProvider st u = None then NotAProvider
                 else SelfBookingNotAllowed), st)"
  using assms by (auto simp: store_def split: option.splits)

text \<open>
  C5, what the code does. Provider 1 asks for a slot with provider 1 and sends the key
  as the string \<^verbatim>\<open>"1"\<close>: the schema accepts it, the provider lookup finds user 1, the
  strict comparison of a string with the number 1 lets the request through, and the
  booking of user 1 with provider 1 is created and answered. The copy of the controller
  without the test stores the self-booking whichever way the key is sent.
\<close>

theorem self_booking_reaches_storage:
  "store 0 (init_db example_users) 1 (example_body_string 1 7200005) 0 True =
     (Inr \<lparr>apointment_pk = 1, user_id = 1, provider_id = 1, date = 7200000, canceled_at = None\<rparr>,
      \<lparr>users = example_users,
       apointments = [\<lparr>apointment_pk = 1, user_id = 1, provider_id = 1, date = 7200000,
                       canceled_at = None\<rparr>],
       next_pk = 2,
       notifications = [\<lparr>content_name = ''Ana'', content_date = 7200000, notified_user = 1\<rparr>],
       cancellation_jobs = []\<rparr>) \<and>
   store_plain 0 (init_db example_users) 1 (example_body 1 7200005) 0 =
     (Inr \<lparr>apointment_pk = 1, user_id = 1, provider_id = 1, date = 7200000, canceled_at = None\<rparr>,
      \<lparr>users = example_users,
       apointments = [\<lparr>apointment_pk = 1, user_id = 1, provider_id = 1, date = 7200000,
                       canceled_at = None\<rparr>],
       next_pk = 2, notifications = [], cancellation_jobs = []\<rparr>)"
  by (simp add: eval_defs)

section \<open>Cancellation is soft\<close>

text \<open>
  C6, as the code has it. When \<open>delete\<close> succeeds on a booking, looking the key up
  afterwards answers that booking with \<open>canceled_at\<close> set to the clock reading. After any
  later sequence of \<open>store\<close> and \<open>delete\<close> requests the key still denotes a row with the
  same requester, provider and date, and its \<open>canceled_at\<close> is still set: a cancelled
  booking is never removed and never becomes active again. The stored instant itself is
  not promised to stay: \<open>delete\<close> does not look at \<open>canceled_at\<close>.
\<close>

theorem cancel_is_soft_and_never_unset:
  assumes "delete st u i t t' queued = (Inr c, st1)"
  shows "findByPk st1 i = Some c \<and> canceled_at c = Some t' \<and>
         (\<exists>c'. findByPk (run tz st1 rs) i = Some c' \<and> same_booking c c' \<and>
               canceled_at c' \<noteq> None)"
proof -
  from assms have res: "fst (delete st u i t t' queued) = Inr c"
    and st1: "st1 = snd (delete st u i t t' queued)"
    by simp_all
  from delete_success [OF res] obtain x where x: "findByPk st i = Some x" "user_id x = u"
    "\<not> isBefore (subHours (date x) 2) t" "c = x\<lparr>canceled_at := Some t'\<rparr>"
    by blast
  from delete_written [OF x(1,2,3), of t' queued]
  have found: "findByPk st1 i = Some c"
    using x(4) st1 by simp
  have set: "canceled_at c = Some t'"
    using x(4) by simp
  from run_findByPk [OF found, of tz rs] set
  have "\<exists>c'. findByPk (run tz st1 rs) i = Some c' \<and> same_booking c c' \<and> canceled_at c' \<noteq> None"
    by auto
  with found set show ?thesis by simp
qed

text \<open>
  An instance: the example booking is cancelled, then another user books the freed slot
  and the owner cancels the old booking once more; key 1 still denotes a cancelled row.
\<close>

theorem cancel_is_soft_and_never_unset_witness:
  "findByPk (snd (delete example_db 2 1 0 5 True)) 1 =
     Some \<lparr>apointment_pk = 1, user_id = 2, provider_id = 1, date = 10800000,
           canceled_at = Some 5\<rparr> \<and>
   (\<exists>c'. findByPk (run 0 (snd (delete example_db 2 1 0 5 True))
                     [Store 3 (example_body 1 10800005) 6 True, Delete 2 1 8 9 True]) 1 = Some c' \<and>
         canceled_at c' \<noteq> None)"
proof -
  let ?c = "\<lparr>apointment_pk = 1, user_id = 2, provider_id = 1, date = 10800000,
             canceled_at = Some 5\<rparr>"
  have h: "delete example_db 2 1 0 5 True = (Inr ?c, snd (delete example_db 2 1 0 5 True))"
    by (simp add: eval_defs)
  from cancel_is_soft_and_never_unset
    [OF h, of 0 "[Store 3 (example_body 1 10800005) 6 True, Delete 2 1 8 9 True]"]
  show ?thesis by blast
qed

text \<open>
  Against C6 as stated: the owner cancels the example booking at instant 5 and again at
  instant 9; the second cancel is accepted and replaces the stored instant.
\<close>

theorem second_cancel_overwrites:
  "map_option canceled_at (findByPk (run 0 example_db [Delete 2 1 0 5 True]) 1) = Some (Some 5) \<and>
   fst (delete (run 0 example_db [Delete 2 1 0 5 True]) 2 1 8 9 True) =
     Inr \<lparr>apointment_pk = 1, user_id = 2, provider_id = 1, date = 10800000,
          canceled_at = Some 9\<rparr> \<and>
   map_option canceled_at
     (findByPk (run 0 example_db [Delete 2 1 0 5 True, Delete 2 1 8 9 True]) 1) = Some (Some 9)"
  by (simp add: eval_defs)

section \<open>The stored date\<close>

text \<open>
  C7, as the code has it. The booking a successful \<open>store\<close> answers carries the start of
  the hour of the requested time: the date is \<open>startOfHour\<close> of it, a whole hour on the
  local clock, at most the requested time and less than an hour before it. The date is
  not before the clock reading of the past-date check; it may equal it. The booking is
  active and stored.
\<close>

theorem stored_date_is_hour_start_not_past:
  assumes "store tz st u b now sent = (Inr a, st1)" and "body_date b = Some T"
  shows "date a = startOfHour tz T \<and> (date a + tz) mod 3600000 = 0 \<and>
         date a \<le> T \<and> T < date a + 3600000 \<and> now \<le> date a \<and>
         canceled_at a = None \<and> findByPk st1 (apointment_pk a) \<noteq> None"
proof -
  from store_success [OF assms(1)] assms(2)
  obtain pid where a: "a = new_row st u pid (startOfHour tz T)"
    and fresh: "\<not> isBefore (startOfHour tz T) now"
    and tab: "apointments st1 = apointments st @ [a]"
    by auto
  have d: "date a = startOfHour tz T" "canceled_at a = None"
    using a by (simp_all add: new_row_def)
  have "findByPk st1 (apointment_pk a) \<noteq> None"
    unfolding findByPk_def tab by (auto simp: find_None_iff)
  moreover have "(date a + tz) mod 3600000 = 0"
    using startOfHour_aligned [of tz T] d by (simp add: MILLISECONDS_IN_HOUR_def)
  moreover have "now \<le> date a"
    using fresh d by (simp add: isBefore_def)
  ultimately show ?thesis
    using d startOfHour_bounds [of tz T] by simp
qed

text \<open>An instance: a request for 02:00:00.005 at clock reading 0 is stored at 02:00.\<close>

theorem stored_date_is_hour_start_not_past_witness:
  "date \<lparr>apointment_pk = 1, user_id = 2, provider_id = 1, date = 7200000, canceled_at = None\<rparr> =
     startOfHour 0 7200005 \<and>
   (0::int) \<le> date \<lparr>apointment_pk = 1, user_id = 2, provider_id = 1, date = 7200000,
                     canceled_at = None\<rparr>"
proof -
  let ?a = "\<lparr>apointment_pk = 1, user_id = 2, provider_id = 1, date = 7200000, canceled_at = None\<rparr>"
  have h1: "store 0 (init_db example_users) 2 (example_body 1 7200005) 0 True =
              (Inr ?a, snd (store 0 (init_db example_users) 2 (example_body 1 7200005) 0 True))"
    by (simp add: eval_defs)
  have h2: "body_date (example_body 1 7200005) = Some 7200005"
    by (simp add: example_body_def)
  from stored_date_is_hour_start_not_past [OF h1 h2]
  show ?thesis by simp
qed

text \<open>
  Against C7 as stated: a request for 02:00 sharp that is checked at 02:00 sharp
  succeeds, and the stored date equals the clock reading instead of lying after it.
\<close>

theorem booking_at_the_current_instant:
  "fst (store 0 (init_db example_users) 2 (example_body 1 7200000) 7200000 True) =
     Inr \<lparr>apointment_pk = 1, user_id = 2, provider_id = 1, date = 7200000, canceled_at = None\<rparr>"
  by (simp add: eval_defs)

section \<open>Cancelling frees the slot\<close>

text \<open>
  C9, as the code has it. Let \<open>delete\<close> succeed on a booking \<open>c\<close>, and let no other
  active booking hold its slot. Then a request for the same provider at a time of the
  same hour, by a requester other than the provider, with the provider still a provider
  and the hour not before the clock reading, creates a new active booking for that slot.
  The request succeeds, answering that booking, exactly when in addition the requester's
  user row exists and the notification is accepted; without the user row the handler
  throws a TypeError, and with a rejected notification it throws that rejection.
\<close>

theorem cancel_frees_slot:
  assumes cancel: "delete st u i t t' queued = (Inr c, st1)"
    and others: "\<forall>a \<in> set (apointments st).
                   provider_id a = provider_id c \<and> date a = date c \<and> canceled_at a = None
                   \<longrightarrow> apointment_pk a = i"
    and b: "body_provider_id b = Some v" "to_number v = provider_id c" "body_date b = Some T"
    and hour: "startOfHour tz T = date c"
    and prov: "findProvider st1 (provider_id c) \<noteq> None"
    and other: "u2 \<noteq> provider_id c"
    and future: "now \<le> date c"
  shows "apointments (snd (store tz st1 u2 b now sent)) =
           apointments st1 @
             [\<lparr>apointment_pk = next_pk st1, user_id = u2, provider_id = provider_id c,
               date = date c, canceled_at = None\<rparr>] \<and>
         fst (store tz st1 u2 b now sent) =
           (if findUserByPk st1 u2 = None then Inl (Thrown TypeError)
            else if sent then
              Inr \<lparr>apointment_pk = next_pk st1, user_id = u2, provider_id = provider_id c,
                   date = date c, canceled_at = None\<rparr>
            else Inl (Thrown NotificationRejected))"
proof -
  from cancel have res: "fst (delete st u i t t' queued) = Inr c"
    and st1: "st1 = snd (delete st u i t t' queued)"
    by simp_all
  from delete_success [OF res] obtain x where x: "findByPk st i = Some x" "user_id x = u"
    "\<not> isBefore (subHours (date x) 2) t" "queued" "c = x\<lparr>canceled_at := Some t'\<rparr>"
    and pk: "apointment_pk x = i"
    by blast
  have "apointments st1 = apointments (save_canceled_at st i t')"
    using x pk unfolding st1 by (simp add: delete_def Let_def)
  then have tab: "apointments st1 =
      map (\<lambda>a. if apointment_pk a = i then a\<lparr>canceled_at := Some t'\<rparr> else a) (apointments st)"
    by (simp add: save_canceled_at_def)
  have free: "checkAvailability st1 (provider_id c) (date c) = None"
    unfolding checkAvailability_def tab find_None_iff
    using others by auto
  have pass: "strict_not_equal v u2"
    using other b(2) by (cases v) auto
  show ?thesis
    using b hour prov pass future free
    by (auto simp: store_def create_def Let_def isBefore_def findUserByPk_def
             split: option.splits)
qed

text \<open>
  An instance: the example booking is cancelled and user 3 books the same hour of
  provider 1.
\<close>

theorem cancel_frees_slot_witness:
  "fst (store 0 (snd (delete example_db 2 1 0 5 True)) 3 (example_body 1 10800900) 6 True) =
     Inr \<lparr>apointment_pk = 2, user_id = 3, provider_id = 1, date = 10800000, canceled_at = None\<rparr>"
proof -
  let ?c = "\<lparr>apointment_pk = 1, user_id = 2, provider_id = 1, date = 10800000,
             canceled_at = Some 5\<rparr>"
  let ?st1 = "snd (delete example_db 2 1 0 5 True)"
  have h1: "delete example_db 2 1 0 5 True = (Inr ?c, ?st1)"
    by (simp add: eval_defs)
  have h2: "\<forall>a \<in> set (apointments example_db).
              provider_id a = provider_id ?c \<and> date a = date ?c \<and> canceled_at a = None
              \<longrightarrow> apointment_pk a = 1"
    by (simp add: eval_defs)
  have h3: "body_provider_id (example_body 1 10800900) = Some (Number 1)"
    "to_number (Number 1) = provider_id ?c"
    "body_date (example_body 1 10800900) = Some 10800900"
    by (simp_all add: example_body_def)
  have h4: "startOfHour 0 10800900 = date ?c"
    by (simp add: eval_defs)
  have h5: "findProvider ?st1 (provider_id ?c) \<noteq> None"
    by (simp add: eval_defs)
  have h6: "(3::int) \<noteq> provider_id ?c" "(6::int) \<le> date ?c"
    by simp_all
  from cancel_frees_slot [OF h1 h2 h3 h4 h5 h6, of True]
  show ?thesis by (simp add: eval_defs)
qed

text \<open>
  Against C9 as stated: the example booking of provider 1 at 03:00 is cancelled, provider 1
  is still a provider, no active booking holds the slot, and the clock reads 6. User 3
  asks for that hour and the notification is rejected: the answer is the exception.
  User 9, who has no user row, asks for that hour: the answer is a TypeError. Neither
  request succeeds.
\<close>

theorem freed_slot_request_can_throw:
  "fst (delete example_db 2 1 0 5 True) =
     Inr \<lparr>apointment_pk = 1, user_id = 2, provider_id = 1, date = 10800000,
          canceled_at = Some 5\<rparr> \<and>
   findProvider (snd (delete example_db 2 1 0 5 True)) 1 \<noteq> None \<and>
   active_at (snd (delete example_db 2 1 0 5 True)) 1 10800000 = [] \<and>
   fst (store 0 (snd (delete example_db 2 1 0 5 True)) 3 (example_body 1 10800900) 6 False) =
     Inl (Thrown NotificationRejected) \<and>
   fst (store 0 (snd (delete example_db 2 1 0 5 True)) 9 (example_body 1 10800900) 6 True) =
     Inl (Thrown TypeError)"
  by (simp add: eval_defs active_at_def)

section \<open>The provider's schedule of a day\<close>

lemma findProvider_flagged:
  "(findProvider st i = None) = (\<not> (\<exists>x \<in> set (users st). user_pk x = i \<and> provider x))"
  by (auto simp: findProvider_def find_None_iff)

text \<open>
  C10. When no user row with the caller's key is flagged as a provider, the listing
  answers the error \<open>UserIsNotProvider\<close> and no bookings. Otherwise it answers, in table
  order, exactly the stored bookings whose provider is the caller, whose \<open>canceled_at\<close> is
  null and whose date lies on the local calendar day of the queried date, which is the
  interval from \<open>startOfDay\<close> to \<open>endOfDay\<close> with both ends included.
\<close>

theorem schedule_lists_active_bookings_of_the_day:
  "schedule_index tz st u d =
     (if \<exists>x \<in> set (users st). user_pk x = u \<and> provider x
      then Inr (filter (\<lambda>a. provider_id a = u \<and> canceled_at a = None \<and> on_same_day tz (date a) d)
                       (apointments st))
      else Inl UserIsNotProvider) \<and>
   on_same_day tz x d = (startOfDay tz d \<le> x \<and> x \<le> endOfDay tz d)"
  by (simp add: schedule_index_def findProvider_flagged same_day_between)

text \<open>
  An instance: of the four example bookings, provider 1 sees on the first day only the
  active one of that day; user 2 is no provider and sees an error.
\<close>

theorem schedule_lists_active_bookings_of_the_day_witness:
  "schedule_index 0 example_schedule 1 50000000 =
     Inr [\<lparr>apointment_pk = 1, user_id = 2, provider_id = 1, date = 10800000,
           canceled_at = None\<rparr>] \<and>
   schedule_index 0 example_schedule 2 50000000 = Inl UserIsNotProvider"
  using schedule_lists_active_bookings_of_the_day [of 0 example_schedule 1 50000000 0]
    schedule_lists_active_bookings_of_the_day [of 0 example_schedule 2 50000000 0]
  by (simp add: example_schedule_def example_users_def on_same_day_def)

end
